theory Spec2Isabelle
  imports Complex_Main "HOL-Library.Multiset"
begin

section \<open>Data model of \<open>glassfibre/preprocessing.py\<close>\<close>

text \<open>
  Python floats are idealised as exact reals throughout: areas, thresholds, raster cell
  values and emission factors are \<open>real\<close>, and the decimal literals of the source
  (\<open>0.01\<close>, \<open>0.1\<close>, \<open>0.001\<close>) are the exact decimal fractions.

  The exceptions the modelled code can raise itself are values of \<open>error\<close>.
\<close>

datatype error =
    KeyError string
  | AttributeError string
  | ValueError string
  | FileNotFoundError string

text \<open>
  A polygon part as shapely presents it to the code: the code only ever reads its
  \<open>.area\<close> property; the ring is kept so that two parts of equal area stay distinct.
\<close>

record polygon =
  exterior :: "(real \<times> real) list"
  area :: real

text \<open>The shapely geometry classes, by their \<open>.type\<close> name.\<close>

datatype geometry =
    Point
  | LineString
  | LinearRing
  | Polygon polygon
  | MultiPoint
  | MultiLineString
  | MultiPolygon "polygon list"
  | GeometryCollection

fun geom_type :: "geometry \<Rightarrow> string" where
  "geom_type Point = ''Point''"
| "geom_type LineString = ''LineString''"
| "geom_type LinearRing = ''LinearRing''"
| "geom_type (Polygon p) = ''Polygon''"
| "geom_type MultiPoint = ''MultiPoint''"
| "geom_type MultiLineString = ''MultiLineString''"
| "geom_type (MultiPolygon ps) = ''MultiPolygon''"
| "geom_type GeometryCollection = ''GeometryCollection''"

text \<open>The \<open>.area\<close> of a MultiPolygon is the sum of the areas of its parts.\<close>

definition multipolygon_area :: "polygon list \<Rightarrow> real" where
  "multipolygon_area ps = sum_list (map area ps)"

text \<open>
  The polygon parts a returned geometry consists of: one for a Polygon, the members
  of \<open>.geoms\<close> for a MultiPolygon.
\<close>

fun polygon_parts :: "geometry \<Rightarrow> polygon list" where
  "polygon_parts (Polygon p) = [p]"
| "polygon_parts (MultiPolygon ps) = ps"
| "polygon_parts g = []"

text \<open>
  A row of a (Geo)DataFrame: the geometry column (possibly null) and the string-valued
  attribute columns, looked up by name; \<open>x['GID_0']\<close> on a row without that column
  raises \<open>KeyError\<close>.
\<close>

record feature =
  geometry :: "geometry option"
  columns :: "string \<rightharpoonup> string"

definition column :: "feature \<Rightarrow> string \<Rightarrow> error + string" where
  "column x k = (case columns x k of None \<Rightarrow> Inl (KeyError k) | Some v \<Rightarrow> Inr v)"

section \<open>\<open>remove_small_shapes\<close>\<close>

text \<open>
  Lines 38-88. The result \<open>Inr None\<close> is the Python value \<open>None\<close> that the function
  returns by falling off its end; a null geometry has no \<open>.type\<close>, which raises
  \<open>AttributeError\<close>.
\<close>

definition remove_small_shapes :: "feature \<Rightarrow> error + geometry option" where
  "remove_small_shapes x =
     (case geometry x of
        None \<Rightarrow> Inl (AttributeError ''type'')
      | Some (Polygon p) \<Rightarrow> Inr (Some (Polygon p))
      | Some (MultiPolygon ps) \<Rightarrow>
          (let area1 = 0.01; area2 = 50 in
           if multipolygon_area ps < area1 then Inr (Some (MultiPolygon ps))
           else
             (case column x ''GID_0'' of
                Inl e \<Rightarrow> Inl e
              | Inr gid \<Rightarrow>
                  (let threshold =
                     (if gid \<in> set [''CHL'', ''IDN''] then 0.01
                      else if gid \<in> set [''RUS'', ''GRL'', ''CAN'', ''USA''] then 0.01
                      else if multipolygon_area ps > area2 then 0.1
                      else 0.001)
                   in Inr (Some (MultiPolygon [y \<leftarrow> ps. area y > threshold])))))
      | Some g \<Rightarrow> Inr None)"

text \<open>
  \<open>df.apply(remove_small_shapes, axis = 1)\<close>: the function is applied to the rows in
  order and the first exception propagates.
\<close>

fun apply_remove_small_shapes :: "feature list \<Rightarrow> error + geometry option list" where
  "apply_remove_small_shapes [] = Inr []"
| "apply_remove_small_shapes (x # xs) =
     (case remove_small_shapes x of
        Inl e \<Rightarrow> Inl e
      | Inr g \<Rightarrow>
          (case apply_remove_small_shapes xs of
             Inl e \<Rightarrow> Inl e
           | Inr gs \<Rightarrow> Inr (g # gs)))"

text \<open>
  The threshold as the specification words it: 0.01 for the six listed countries, the
  country check first; otherwise 0.1 when the total area exceeds 50; otherwise 0.001.
\<close>

definition spec_threshold :: "string \<Rightarrow> real \<Rightarrow> real" where
  "spec_threshold gid total_area =
     (if gid \<in> {''CHL'', ''IDN'', ''RUS'', ''GRL'', ''CAN'', ''USA''} then 0.01
      else if total_area > 50 then 0.1
      else 0.001)"

section \<open>The LCA calculators\<close>

text \<open>
  Lines 455-641. The tables \<open>weights\<close>, \<open>carbon_factors\<close> and \<open>operations\<close> are
  imported from \<open>glassfibre.inputs\<close>; they are parameters of the model. Each is a
  dictionary of dictionaries: the outer one is iterated with \<open>.items()\<close> and is an
  association list in insertion order (a well-formed one has distinct keys), the inner
  ones are only subscripted and are maps; a missing key raises \<open>KeyError\<close>.
  A returned dictionary holds numbers and, under \<open>'lca_phase'\<close>, a string.
\<close>

type_synonym table = "string \<rightharpoonup> real"

datatype val = Num real | Str string

type_synonym emission_dict = "string \<rightharpoonup> val"

definition getitem :: "table \<Rightarrow> string \<Rightarrow> error + real" where
  "getitem t k = (case t k of None \<Rightarrow> Inl (KeyError k) | Some v \<Rightarrow> Inr v)"

definition ebind :: "error + 'a \<Rightarrow> ('a \<Rightarrow> error + 'b) \<Rightarrow> error + 'b" where
  "ebind m f = (case m of Inl e \<Rightarrow> Inl e | Inr v \<Rightarrow> f v)"

text \<open>\<open>for key, value in d.items(): body\<close>, the first exception ending the loop.\<close>

fun for_items ::
  "(string \<times> 'a) list \<Rightarrow> (string \<Rightarrow> 'a \<Rightarrow> 's \<Rightarrow> error + 's) \<Rightarrow> 's \<Rightarrow> error + 's" where
  "for_items [] body s = Inr s"
| "for_items ((key, v) # rest) body s =
     (case body key v s of Inl e \<Rightarrow> Inl e | Inr s' \<Rightarrow> for_items rest body s')"

text \<open>\<open>(item[wk] * carbon_factor[fk])\<close>, the weight read first.\<close>

definition weight_times_factor :: "table \<Rightarrow> table \<Rightarrow> string \<Rightarrow> string \<Rightarrow> error + real" where
  "weight_times_factor item carbon_factor wk fk =
     ebind (getitem item wk) (\<lambda>w. ebind (getitem carbon_factor fk) (\<lambda>f. Inr (w * f)))"

text \<open>The body under \<open>if key == 'manufacturing'\<close> in \<open>lca_manufacturing\<close> (lines 472-520).\<close>

definition mfg_body :: "table \<Rightarrow> string \<Rightarrow> table \<Rightarrow> emission_dict \<Rightarrow> error + emission_dict" where
  "mfg_body carbon_factor key item mfg_emission_dict =
     ebind (weight_times_factor item carbon_factor ''fiber_cable_per_km_kg'' ''glass_kg_co2e'') (\<lambda>fiber_cable_ghg.
     ebind (weight_times_factor item carbon_factor ''pcb_kg'' ''pcb_kg_co2e'') (\<lambda>pcb_ghg.
     ebind (weight_times_factor item carbon_factor ''aluminium_bru_kg'' ''aluminium_kg_co2e'') (\<lambda>alu_bbu_ghg.
     ebind (weight_times_factor item carbon_factor ''copper_antenna_kg'' ''copper_kg_co2e'') (\<lambda>cu_antenna_ghg.
     ebind (weight_times_factor item carbon_factor ''aluminium_antenna_kg'' ''aluminium_kg_co2e'') (\<lambda>alu_antenna_ghg.
     ebind (weight_times_factor item carbon_factor ''pvc_antenna_kg'' ''pvc_kg_co2e'') (\<lambda>pvc_ghg.
     ebind (weight_times_factor item carbon_factor ''iron_antenna_kg'' ''iron_kg_co2e'') (\<lambda>iron_ghg.
     ebind (weight_times_factor item carbon_factor ''steel_antenna_kg'' ''steel_kg_co2e'') (\<lambda>steel_ghg.
     ebind (weight_times_factor item carbon_factor ''aluminium_frame_kg'' ''aluminium_kg_co2e'') (\<lambda>alu_frame_ghg.
     ebind (weight_times_factor item carbon_factor ''concrete_kg'' ''concrete_kg_co2e'') (\<lambda>concrete_ghg.
     ebind (weight_times_factor item carbon_factor ''aluminium_device_kg'' ''aluminium_kg_co2e'') (\<lambda>alu_device_ghg.
     Inr (mfg_emission_dict
       (''aluminium_ghg'' \<mapsto> Num (alu_bbu_ghg + alu_antenna_ghg + alu_frame_ghg + alu_device_ghg),
        ''optic_fiber_ghg'' \<mapsto> Num fiber_cable_ghg,
        ''steel_iron_ghg'' \<mapsto> Num (iron_ghg + steel_ghg),
        ''concrete_ghg'' \<mapsto> Num concrete_ghg,
        ''plastics_ghg'' \<mapsto> Num (pcb_ghg + pvc_ghg),
        ''other_metals_ghg'' \<mapsto> Num cu_antenna_ghg,
        ''lca_phase'' \<mapsto> Str key)))))))))))))"

definition lca_manufacturing ::
  "(string \<times> table) list \<Rightarrow> (string \<times> table) list \<Rightarrow> error + emission_dict" where
  "lca_manufacturing carbon_factors weights =
     for_items carbon_factors
       (\<lambda>key carbon_factor d.
          if key = ''mfg_emissions''
          then for_items weights
                 (\<lambda>key item d. if key = ''manufacturing'' then mfg_body carbon_factor key item d
                                else Inr d) d
          else Inr d)
       Map.empty"

text \<open>The body under \<open>if key == 'manufacturing'\<close> in \<open>lca_eolt\<close> (lines 543-591).\<close>

definition eolt_body :: "table \<Rightarrow> string \<Rightarrow> table \<Rightarrow> emission_dict \<Rightarrow> error + emission_dict" where
  "eolt_body carbon_factor key item eolt_emission_dict =
     ebind (weight_times_factor item carbon_factor ''fiber_cable_per_km_kg'' ''glass_kg_co2e'') (\<lambda>fiber_cable_ghg.
     ebind (weight_times_factor item carbon_factor ''pcb_kg'' ''pcb_kg_co2e'') (\<lambda>pcb_ghg.
     ebind (weight_times_factor item carbon_factor ''aluminium_bru_kg'' ''metals_kg_co2e'') (\<lambda>alu_bbu_ghg.
     ebind (weight_times_factor item carbon_factor ''copper_antenna_kg'' ''metals_kg_co2e'') (\<lambda>cu_antenna_ghg.
     ebind (weight_times_factor item carbon_factor ''aluminium_antenna_kg'' ''metals_kg_co2e'') (\<lambda>alu_antenna_ghg.
     ebind (weight_times_factor item carbon_factor ''pvc_antenna_kg'' ''pcb_kg_co2e'') (\<lambda>pvc_ghg.
     ebind (weight_times_factor item carbon_factor ''iron_antenna_kg'' ''metals_kg_co2e'') (\<lambda>iron_ghg.
     ebind (weight_times_factor item carbon_factor ''steel_antenna_kg'' ''metals_kg_co2e'') (\<lambda>steel_ghg.
     ebind (weight_times_factor item carbon_factor ''aluminium_frame_kg'' ''metals_kg_co2e'') (\<lambda>alu_frame_ghg.
     ebind (weight_times_factor item carbon_factor ''concrete_kg'' ''concrete_kg_co2e'') (\<lambda>concrete_ghg.
     ebind (weight_times_factor item carbon_factor ''aluminium_device_kg'' ''metals_kg_co2e'') (\<lambda>alu_device_ghg.
     Inr (eolt_emission_dict
       (''aluminium_ghg'' \<mapsto> Num (alu_bbu_ghg + alu_antenna_ghg + alu_frame_ghg + alu_device_ghg),
        ''optic_fiber_ghg'' \<mapsto> Num fiber_cable_ghg,
        ''steel_iron_ghg'' \<mapsto> Num (iron_ghg + steel_ghg),
        ''concrete_ghg'' \<mapsto> Num concrete_ghg,
        ''plastics_ghg'' \<mapsto> Num (pcb_ghg + pvc_ghg),
        ''other_metals_ghg'' \<mapsto> Num cu_antenna_ghg,
        ''lca_phase'' \<mapsto> Str ''eolt'')))))))))))))"

definition lca_eolt ::
  "(string \<times> table) list \<Rightarrow> (string \<times> table) list \<Rightarrow> error + emission_dict" where
  "lca_eolt carbon_factors weights =
     for_items carbon_factors
       (\<lambda>key carbon_factor d.
          if key = ''eolt_emissions''
          then for_items weights
                 (\<lambda>key item d. if key = ''manufacturing'' then eolt_body carbon_factor key item d
                                else Inr d) d
          else Inr d)
       Map.empty"

text \<open>\<open>lca_trans\<close> (lines 597-617) reads one factor and no weight.\<close>

definition lca_trans :: "(string \<times> table) list \<Rightarrow> error + emission_dict" where
  "lca_trans carbon_factors =
     for_items carbon_factors
       (\<lambda>key carbon_factor d.
          if key = ''trans_emissions''
          then ebind (getitem carbon_factor ''olnu_router_kg_co2e'') (\<lambda>fiber_cable_ghg.
                 Inr (d(''optic_fiber_ghg'' \<mapsto> Num fiber_cable_ghg,
                        ''lca_phase'' \<mapsto> Str ''trans'')))
          else Inr d)
       Map.empty"

text \<open>
  \<open>lca_operations\<close> (lines 620-641) copies three power values of every entry of
  \<open>operations\<close> in turn, each entry overwriting the one before.
\<close>

definition ops_body :: "string \<Rightarrow> table \<Rightarrow> emission_dict \<Rightarrow> error + emission_dict" where
  "ops_body key operation ops_emission_dict =
     ebind (getitem operation ''cpe_power_kwh'') (\<lambda>cpe_power_kwh.
     ebind (getitem operation ''base_station_pwr_kwh'') (\<lambda>base_station_power_kwh.
     ebind (getitem operation ''terminal_unit_pwr_kwh'') (\<lambda>terminal_unit_pwr_kwh.
       Inr (ops_emission_dict
         (''cpe_power'' \<mapsto> Num cpe_power_kwh,
          ''base_station_power_kwh'' \<mapsto> Num base_station_power_kwh,
          ''terminal_unit_pwr_kwh'' \<mapsto> Num terminal_unit_pwr_kwh,
          ''lca_phase'' \<mapsto> Str ''ops'')))))"

definition lca_operations :: "(string \<times> table) list \<Rightarrow> error + emission_dict" where
  "lca_operations operations = for_items operations ops_body Map.empty"

text \<open>
  The words of the specification, "a sum of products weight \<open>\<times>\<close> carbon factor taken
  from the static lookup tables": a finite sum, each term the product of a value of a
  table of \<open>weights\<close> and a value of a table of \<open>carbon_factors\<close>.
\<close>

inductive weighted_sum :: "(string \<times> table) list \<Rightarrow> (string \<times> table) list \<Rightarrow> real \<Rightarrow> bool"
  for weights carbon_factors where
  weighted_sum_empty: "weighted_sum weights carbon_factors 0"
| weighted_sum_term:
    "(k, item) \<in> set weights \<Longrightarrow> item wk = Some w \<Longrightarrow>
     (k', carbon_factor) \<in> set carbon_factors \<Longrightarrow> carbon_factor fk = Some f \<Longrightarrow>
     weighted_sum weights carbon_factors s \<Longrightarrow>
     weighted_sum weights carbon_factors (w * f + s)"

text \<open>
  Example tables, with made-up values, on which the theorems about the calculators
  are instantiated; the tables of \<open>glassfibre.inputs\<close> have this shape.
\<close>

definition example_weights :: "(string \<times> table) list" where
  "example_weights =
     [(''manufacturing'',
       [''fiber_cable_per_km_kg'' \<mapsto> 10, ''pcb_kg'' \<mapsto> 1, ''aluminium_bru_kg'' \<mapsto> 2,
        ''copper_antenna_kg'' \<mapsto> 3, ''aluminium_antenna_kg'' \<mapsto> 4, ''pvc_antenna_kg'' \<mapsto> 5,
        ''iron_antenna_kg'' \<mapsto> 6, ''steel_antenna_kg'' \<mapsto> 7, ''aluminium_frame_kg'' \<mapsto> 8,
        ''concrete_kg'' \<mapsto> 9, ''aluminium_device_kg'' \<mapsto> 11])]"

definition example_mfg_factors :: table where
  "example_mfg_factors =
     [''glass_kg_co2e'' \<mapsto> 2, ''pcb_kg_co2e'' \<mapsto> 3, ''aluminium_kg_co2e'' \<mapsto> 4,
      ''copper_kg_co2e'' \<mapsto> 5, ''pvc_kg_co2e'' \<mapsto> 6, ''iron_kg_co2e'' \<mapsto> 7,
      ''steel_kg_co2e'' \<mapsto> 8, ''concrete_kg_co2e'' \<mapsto> 1 / 2]"

definition example_eolt_factors :: table where
  "example_eolt_factors =
     [''glass_kg_co2e'' \<mapsto> 1, ''pcb_kg_co2e'' \<mapsto> 2, ''metals_kg_co2e'' \<mapsto> 3,
      ''concrete_kg_co2e'' \<mapsto> 4]"

definition example_trans_factors :: table where
  "example_trans_factors = [''olnu_router_kg_co2e'' \<mapsto> 5]"

definition example_carbon_factors :: "(string \<times> table) list" where
  "example_carbon_factors =
     [(''mfg_emissions'', example_mfg_factors),
      (''trans_emissions'', example_trans_factors),
      (''eolt_emissions'', example_eolt_factors)]"

definition example_operations :: "(string \<times> table) list" where
  "example_operations =
     [(''fiber_network'',
       [''cpe_power_kwh'' \<mapsto> 1, ''base_station_pwr_kwh'' \<mapsto> 2, ''terminal_unit_pwr_kwh'' \<mapsto> 3])]"

section \<open>\<open>ProcessPopulation.process_population_tif\<close>\<close>

text \<open>
  Lines 370-452. The regions layer read from the shapefile is a list of rows, and band 1
  of the national raster is the list of its cell values. Two library calls are
  modelled by what their documentation says:
  \<^item> \<open>zonal_stats(geometry, array, nodata = 255, stats = ['sum'], affine = affine)\<close>
    sums the cells of \<open>array\<close> that the geometry covers and that are not \<open>nodata\<close>, and
    reports \<open>None\<close> when no such cell is left. Which cells a geometry covers is the
    parameter \<open>zone\<close> (indices into the cell list; an index outside the raster reads
    as nodata).
  \<^item> \<open>.centroid\<close> is the parameter \<open>centroid\<close>, giving \<open>(x, y)\<close>.
\<close>

text \<open>\<open>array[array <= 0] = 0\<close> (line 404).\<close>

definition zero_nonpositive :: "real list \<Rightarrow> real list" where
  "zero_nonpositive array = map (\<lambda>c. if c \<le> 0 then 0 else c) array"

definition zonal_stats_sum :: "nat list \<Rightarrow> real list \<Rightarrow> real \<Rightarrow> real option" where
  "zonal_stats_sum cells array nodata =
     (let valid = [array ! i. i \<leftarrow> cells, i < length array, array ! i \<noteq> nodata]
      in if valid = [] then None else Some (sum_list valid))"

text \<open>\<open>.area\<close> of a geometry; the classes without polygons have area 0.\<close>

fun geometry_area :: "geometry \<Rightarrow> real" where
  "geometry_area (Polygon p) = area p"
| "geometry_area (MultiPolygon ps) = multipolygon_area ps"
| "geometry_area g = 0"

text \<open>
  One dictionary appended to \<open>output\<close>. The key \<open>'GID_1'\<close> holds the value of column
  \<open>GID_2\<close> or of column \<open>GID_1\<close>; \<open>population\<close> is \<open>None\<close> when the zone has no
  valid cell.
\<close>

record pop_record =
  iso3 :: string
  region :: string
  gid_1 :: string
  population :: "real option"
  latitude :: real
  longitude :: real
  rec_geometry :: geometry
  rec_area :: real

text \<open>
  The dictionary display of lines 415-424 (with \<open>gid_column = 'GID_2'\<close>) and of lines
  427-436 (with \<open>gid_column = 'GID_1'\<close>): the subscripts are evaluated in the order
  written, and the first missing column raises \<open>KeyError\<close>.
\<close>

definition build_record ::
  "feature \<Rightarrow> geometry \<Rightarrow> string \<Rightarrow> real option \<Rightarrow> real \<times> real \<Rightarrow> error + pop_record" where
  "build_record boundary g gid_column pop c =
     ebind (column boundary ''GID_0'') (\<lambda>v_iso3.
     ebind (column boundary ''NAME_1'') (\<lambda>v_region.
     ebind (column boundary gid_column) (\<lambda>v_gid.
       Inr \<lparr>iso3 = v_iso3, region = v_region, gid_1 = v_gid, population = pop,
            latitude = snd c, longitude = fst c,
            rec_geometry = g, rec_area = geometry_area g * 12309\<rparr>)))"

text \<open>
  The body of the loop over the rows (lines 400-436): the \<open>try\<close> builds the record
  from \<open>GID_2\<close>; the bare \<open>except\<close> catches whatever that raised and builds it from
  \<open>GID_1\<close>, outside any handler.
\<close>

definition population_row ::
  "(geometry \<Rightarrow> nat list) \<Rightarrow> (geometry \<Rightarrow> real \<times> real) \<Rightarrow> real list \<Rightarrow> feature
     \<Rightarrow> error + pop_record" where
  "population_row zone centroid raster boundary =
     (let array = zero_nonpositive raster in
      case geometry boundary of
        None \<Rightarrow> Inl (ValueError ''geometry'')
      | Some g \<Rightarrow>
          (let pop = zonal_stats_sum (zone g) array 255;
               c = centroid g
           in case build_record boundary g ''GID_2'' pop c of
                Inr r \<Rightarrow> Inr r
              | Inl e \<Rightarrow> build_record boundary g ''GID_1'' pop c))"

fun population_rows ::
  "(geometry \<Rightarrow> nat list) \<Rightarrow> (geometry \<Rightarrow> real \<times> real) \<Rightarrow> real list \<Rightarrow> feature list
     \<Rightarrow> pop_record list \<Rightarrow> error + pop_record list" where
  "population_rows zone centroid raster [] output = Inr output"
| "population_rows zone centroid raster (boundary # rest) output =
     (case population_row zone centroid raster boundary of
        Inl e \<Rightarrow> Inl e
      | Inr r \<Rightarrow> population_rows zone centroid raster rest (output @ [r]))"

text \<open>A row of the CSV written: the population column is a 64-bit integer column.\<close>

record csv_row =
  csv_iso3 :: string
  csv_region :: string
  csv_gid_1 :: string
  csv_population :: int
  csv_latitude :: real
  csv_longitude :: real
  csv_geometry :: geometry
  csv_area :: real

text \<open>
  \<open>astype(int)\<close> casts a float to a 64-bit signed integer: it truncates towards
  zero and checks no range, and a value outside \<open>-2^63 .. 2^63 - 1\<close> comes out as the
  smallest 64-bit integer, \<open>-9223372036854775808\<close>.
\<close>

definition astype_int :: "real \<Rightarrow> int" where
  "astype_int v =
     (let t = (if v \<ge> 0 then \<lfloor>v\<rfloor> else \<lceil>v\<rceil>)
      in if - 9223372036854775808 \<le> t \<and> t < 9223372036854775808 then t
         else - 9223372036854775808)"

text \<open>\<open>round(4)\<close>: to four decimals, a tie going to the even neighbour.\<close>

definition round4 :: "real \<Rightarrow> real" where
  "round4 v =
     (let s = v * 10000; f = \<lfloor>s\<rfloor> in
      (if s - of_int f < 1 / 2 then of_int f
       else if s - of_int f > 1 / 2 then of_int f + 1
       else if even f then of_int f else of_int f + 1) / 10000)"

text \<open>\<open>df.dropna(subset = ['population'], inplace = True)\<close> (line 439).\<close>

definition dropna_population :: "pop_record list \<Rightarrow> pop_record list" where
  "dropna_population df = [r \<leftarrow> df. population r \<noteq> None]"

text \<open>
  Lines 440-441 on one row: the population is cast to an integer, which raises on a
  missing value, and the coordinates are rounded.
\<close>

definition to_csv_row :: "pop_record \<Rightarrow> error + csv_row" where
  "to_csv_row r =
     (case population r of
        None \<Rightarrow> Inl (ValueError ''population'')
      | Some v \<Rightarrow>
          Inr \<lparr>csv_iso3 = iso3 r, csv_region = region r, csv_gid_1 = gid_1 r,
               csv_population = astype_int v,
               csv_latitude = round4 (latitude r), csv_longitude = round4 (longitude r),
               csv_geometry = rec_geometry r, csv_area = rec_area r\<rparr>)"

fun to_csv_rows :: "pop_record list \<Rightarrow> error + csv_row list" where
  "to_csv_rows [] = Inr []"
| "to_csv_rows (r # rs) =
     (case to_csv_row r of
        Inl e \<Rightarrow> Inl e
      | Inr row \<Rightarrow>
          (case to_csv_rows rs of Inl e \<Rightarrow> Inl e | Inr rows \<Rightarrow> Inr (row # rows)))"

text \<open>
  The whole function: the rows of the CSV written, and the list \<open>output\<close> returned.
  An empty \<open>output\<close> makes a DataFrame without columns, on which \<open>dropna\<close> raises
  \<open>KeyError\<close>; nothing is written when an exception ends the function.
\<close>

definition process_population_tif ::
  "(geometry \<Rightarrow> nat list) \<Rightarrow> (geometry \<Rightarrow> real \<times> real) \<Rightarrow> real list \<Rightarrow> feature list
     \<Rightarrow> error + (csv_row list \<times> pop_record list)" where
  "process_population_tif zone centroid raster boundaries =
     (case population_rows zone centroid raster boundaries [] of
        Inl e \<Rightarrow> Inl e
      | Inr output \<Rightarrow>
          if output = [] then Inl (KeyError ''population'')
          else
            (case to_csv_rows (dropna_population output) of
               Inl e \<Rightarrow> Inl e
             | Inr rows \<Rightarrow> Inr (rows, output)))"

section \<open>\<open>ProcessCountry.get_countries\<close>\<close>

text \<open>
  Lines 114-130. The rows read from the country metadata CSV are the input; a row
  keeps its index label, its iso3 code and its \<open>Exclude\<close> flag.
  \<open>countries.sample(frac = 1)\<close> returns all rows in an order drawn at random: the
  random source is a stream of numbers \<open>rng\<close>, and the rows are drawn one at a time
  without replacement, the next number choosing among the rows left.
\<close>

record country =
  row_label :: nat
  meta_iso3 :: string
  Exclude :: int

function sample_frac_1 :: "(nat \<Rightarrow> nat) \<Rightarrow> 'a list \<Rightarrow> 'a list" where
  "sample_frac_1 rng xs =
     (if xs = [] then []
      else xs ! (rng 0 mod length xs) #
           sample_frac_1 (\<lambda>n. rng (Suc n))
             (take (rng 0 mod length xs) xs @ drop (Suc (rng 0 mod length xs)) xs))"
  by pat_completeness auto
termination
proof (relation "measure (\<lambda>(rng, xs). length xs)")
  fix rng :: "nat \<Rightarrow> nat" and xs :: "'a list"
  assume "xs \<noteq> []"
  then have "rng 0 mod length xs < length xs" by simp
  then show "((\<lambda>n. rng (Suc n),
               take (rng 0 mod length xs) xs @ drop (Suc (rng 0 mod length xs)) xs),
              rng, xs) \<in> measure (\<lambda>(rng, xs). length xs)"
    by simp
qed simp

definition get_countries :: "(nat \<Rightarrow> nat) \<Rightarrow> country list \<Rightarrow> country list" where
  "get_countries rng csv_country =
     (let countries = csv_country;
          countries = [c \<leftarrow> countries. Exclude c = 0];
          countries = sample_frac_1 rng countries
      in countries)"

declare sample_frac_1.simps [simp del]

section \<open>\<open>ProcessRegions.process_regions\<close>\<close>

text \<open>
  Lines 201-246. The function works on the file system and the console: the state is
  the set of paths that exist, the lines printed so far, and the paths \<open>to_file\<close> has
  been called on. The environment is a parameter: \<open>read_file\<close> (what
  \<open>gpd.read_file\<close> returns or raises for a path), \<open>simplify\<close> (the library's
  \<open>simplify\<close> for a tolerance) and \<open>to_file_raises\<close> (whether writing to a path
  raises). A write that raises leaves no file behind.
\<close>

record world =
  paths :: "string set"
  stdout :: "string list"
  to_file_calls :: "string list"

text \<open>\<open>'{}'.format(n)\<close> for a non-negative integer: its decimal digits.\<close>

function str_of_nat :: "nat \<Rightarrow> string" where
  "str_of_nat n =
     (if n < 10 then [''0123456789'' ! n]
      else str_of_nat (n div 10) @ [''0123456789'' ! (n mod 10)])"
  by pat_completeness auto
termination
  by (relation "measure id") auto

declare str_of_nat.simps [simp del]

text \<open>\<open>os.path.join\<close> of non-empty relative components.\<close>

definition path_join :: "string \<Rightarrow> string \<Rightarrow> string" where
  "path_join a b = a @ ''/'' @ b"

definition country_folder :: "string \<Rightarrow> string" where
  "country_folder country_iso3 =
     path_join (path_join ''results'' ''processed'') country_iso3"

definition regions_folder :: "string \<Rightarrow> string" where
  "regions_folder country_iso3 = path_join (country_folder country_iso3) ''regions''"

definition path_processed :: "string \<Rightarrow> nat \<Rightarrow> string" where
  "path_processed country_iso3 regional_level =
     path_join (regions_folder country_iso3)
       (''regions_'' @ str_of_nat regional_level @ ''_'' @ country_iso3 @ ''.shp'')"

definition raw_filename :: "nat \<Rightarrow> string" where
  "raw_filename regional_level = ''gadm36_'' @ str_of_nat regional_level @ ''.shp''"

text \<open>\<open>os.mkdir(folder)\<close> raises when the parent directory does not exist.\<close>

definition mkdir :: "string \<Rightarrow> string \<Rightarrow> world \<Rightarrow> error + world" where
  "mkdir parent folder w =
     (if parent \<in> paths w then Inr (w\<lparr>paths := insert folder (paths w)\<rparr>)
      else Inl (FileNotFoundError folder))"

text \<open>
  \<open>regions[regions.GID_0 == iso3]\<close>: the attribute \<open>GID_0\<close> raises on a frame without
  that column.
\<close>

definition select_country :: "feature list \<Rightarrow> string \<Rightarrow> error + feature list" where
  "select_country regions country_iso3 =
     (if list_ex (\<lambda>x. columns x ''GID_0'' = None) regions then Inl (AttributeError ''GID_0'')
      else Inr [x \<leftarrow> regions. columns x ''GID_0'' = Some country_iso3])"

text \<open>
  Lines 224-234: read the raw layer, keep the country's rows, simplify and prune their
  geometries. None of this is inside the \<open>try\<close>. On an empty selection
  \<open>regions.apply\<close> returns an empty frame, and assigning it to the geometry column
  raises \<open>ValueError\<close>.
\<close>

definition prepare_regions ::
  "(string \<Rightarrow> error + feature list) \<Rightarrow> (real \<Rightarrow> geometry \<Rightarrow> geometry) \<Rightarrow> string \<Rightarrow> nat
     \<Rightarrow> error + feature list" where
  "prepare_regions read_file simplify country_iso3 regional_level =
     (let filename = raw_filename regional_level;
          path_regions = path_join (path_join (path_join ''data'' ''raw'') ''boundaries'') filename
      in ebind (read_file path_regions) (\<lambda>regions.
         ebind (select_country regions country_iso3) (\<lambda>regions.
           let regions = map (\<lambda>x. x\<lparr>geometry := map_option (simplify 0.005) (geometry x)\<rparr>)
                           regions
           in ebind (apply_remove_small_shapes regions) (\<lambda>geoms.
                if regions = [] then Inl (ValueError ''geometry'')
                else Inr (map (\<lambda>(x, g). x\<lparr>geometry := g\<rparr>) (zip regions geoms))))))"

text \<open>
  Lines 236-244: the write, inside \<open>try\<close>; the bare \<open>except\<close> prints a line naming
  the raw file (the variable \<open>filename\<close> was reassigned) and passes.
\<close>

definition try_to_file :: "(string \<Rightarrow> bool) \<Rightarrow> string \<Rightarrow> string \<Rightarrow> world \<Rightarrow> world" where
  "try_to_file to_file_raises path filename w =
     (let w = w\<lparr>to_file_calls := to_file_calls w @ [path]\<rparr>
      in if to_file_raises path
         then w\<lparr>stdout := stdout w @ [''Unable to write '' @ filename]\<rparr>
         else w\<lparr>paths := insert path (paths w)\<rparr>)"

text \<open>The body of the loop for one \<open>regional_level\<close> (lines 210-244).\<close>

definition process_level ::
  "(string \<Rightarrow> error + feature list) \<Rightarrow> (real \<Rightarrow> geometry \<Rightarrow> geometry) \<Rightarrow> (string \<Rightarrow> bool)
     \<Rightarrow> string \<Rightarrow> nat \<Rightarrow> world \<Rightarrow> error + world" where
  "process_level read_file simplify to_file_raises country_iso3 regional_level w =
     (let folder = regions_folder country_iso3;
          path = path_processed country_iso3 regional_level
      in if path \<in> paths w then Inr w
         else
           (let w = w\<lparr>stdout := stdout w @
                      [''Processing GID_'' @ str_of_nat regional_level @
                       '' region shapes for '' @ country_iso3]\<rparr>
            in ebind (if folder \<notin> paths w then mkdir (country_folder country_iso3) folder w
                      else Inr w) (\<lambda>w.
               ebind (prepare_regions read_file simplify country_iso3 regional_level)
                 (\<lambda>regions.
                    Inr (try_to_file to_file_raises path (raw_filename regional_level) w)))))"

fun process_levels ::
  "(string \<Rightarrow> error + feature list) \<Rightarrow> (real \<Rightarrow> geometry \<Rightarrow> geometry) \<Rightarrow> (string \<Rightarrow> bool)
     \<Rightarrow> string \<Rightarrow> nat list \<Rightarrow> world \<Rightarrow> error + world" where
  "process_levels read_file simplify to_file_raises country_iso3 [] w = Inr w"
| "process_levels read_file simplify to_file_raises country_iso3 (regional_level # rest) w =
     (case process_level read_file simplify to_file_raises country_iso3 regional_level w of
        Inl e \<Rightarrow> Inl e
      | Inr w' \<Rightarrow> process_levels read_file simplify to_file_raises country_iso3 rest w')"

text \<open>\<open>range(1, int(self.gid_level) + 1)\<close>, empty when \<open>gid_level\<close> is below 1.\<close>

definition regional_levels :: "int \<Rightarrow> nat list" where
  "regional_levels gid_level = [1..<Suc (nat gid_level)]"

definition process_regions ::
  "(string \<Rightarrow> error + feature list) \<Rightarrow> (real \<Rightarrow> geometry \<Rightarrow> geometry) \<Rightarrow> (string \<Rightarrow> bool)
     \<Rightarrow> string \<Rightarrow> int \<Rightarrow> world \<Rightarrow> error + world" where
  "process_regions read_file simplify to_file_raises country_iso3 gid_level w =
     process_levels read_file simplify to_file_raises country_iso3
       (regional_levels gid_level) w"

text \<open>
  What one processed level prints: the progress line, and the failure line when its
  write raises.
\<close>

definition level_lines :: "(string \<Rightarrow> bool) \<Rightarrow> string \<Rightarrow> nat \<Rightarrow> string list" where
  "level_lines to_file_raises country_iso3 regional_level =
     [''Processing GID_'' @ str_of_nat regional_level @ '' region shapes for '' @ country_iso3]
     @ (if to_file_raises (path_processed country_iso3 regional_level)
        then [''Unable to write '' @ raw_filename regional_level] else [])"

section \<open>Properties of \<open>remove_small_shapes\<close>\<close>

lemma apply_remove_small_shapes_length:
  "apply_remove_small_shapes xs = Inr gs \<Longrightarrow> length gs = length xs"
  by (induction xs arbitrary: gs) (auto split: sum.splits)

lemma apply_remove_small_shapes_nth:
  "apply_remove_small_shapes (pre @ x # post) = Inr gs \<Longrightarrow>
   remove_small_shapes x = Inr (gs ! length pre)"
proof (induction pre arbitrary: gs)
  case Nil
  then show ?case by (auto split: sum.splits)
next
  case (Cons a pre)
  then show ?case by (auto split: sum.splits)
qed

text \<open>
  C2. A feature whose geometry is a Polygon, and a feature whose geometry is a
  MultiPolygon of total area below 0.01, gets its own geometry back, whatever its
  other columns hold.
\<close>

theorem remove_small_shapes_passes_through:
  assumes "geometry x = Some g"
    and "(\<exists>p. g = Polygon p) \<or> (\<exists>ps. g = MultiPolygon ps \<and> multipolygon_area ps < 0.01)"
  shows "remove_small_shapes x = Inr (Some g)"
  using assms by (auto simp: remove_small_shapes_def)

theorem remove_small_shapes_passes_through_witness:
  "remove_small_shapes
     \<lparr>geometry = Some (MultiPolygon [\<lparr>exterior = [(0, 0), (1, 0), (0, 1 / 128)], area = 1 / 256\<rparr>]),
      columns = Map.empty\<rparr>
   = Inr (Some (MultiPolygon [\<lparr>exterior = [(0, 0), (1, 0), (0, 1 / 128)], area = 1 / 256\<rparr>]))"
  by (rule remove_small_shapes_passes_through) (simp_all add: multipolygon_area_def)

text \<open>
  C3. For a MultiPolygon of total area at least 0.01 on a row that has a \<open>GID_0\<close>
  column, the result is the MultiPolygon of exactly the parts, in their order, whose
  area exceeds the threshold of the specification.
\<close>

theorem remove_small_shapes_prunes:
  assumes "geometry x = Some (MultiPolygon ps)"
    and "multipolygon_area ps \<ge> 0.01"
    and "columns x ''GID_0'' = Some gid"
  shows "remove_small_shapes x =
         Inr (Some (MultiPolygon
           [y \<leftarrow> ps. area y > spec_threshold gid (multipolygon_area ps)]))"
  using assms
  by (simp add: remove_small_shapes_def column_def spec_threshold_def not_less [symmetric])

theorem remove_small_shapes_prunes_witness:
  "remove_small_shapes
     \<lparr>geometry = Some (MultiPolygon
        [\<lparr>exterior = [(0, 0), (8, 0), (0, 16)], area = 64\<rparr>,
         \<lparr>exterior = [(9, 9), (10, 9), (9, 9 + 1 / 8)], area = 1 / 16\<rparr>]),
      columns = [''GID_0'' \<mapsto> ''BRA'']\<rparr>
   = Inr (Some (MultiPolygon [\<lparr>exterior = [(0, 0), (8, 0), (0, 16)], area = 64\<rparr>]))"
  using remove_small_shapes_prunes
    [of "\<lparr>geometry = Some (MultiPolygon
        [\<lparr>exterior = [(0, 0), (8, 0), (0, 16)], area = 64\<rparr>,
         \<lparr>exterior = [(9, 9), (10, 9), (9, 9 + 1 / 8)], area = 1 / 16\<rparr>]),
      columns = [''GID_0'' \<mapsto> ''BRA'']\<rparr>"
        "[\<lparr>exterior = [(0, 0), (8, 0), (0, 16)], area = 64\<rparr>,
         \<lparr>exterior = [(9, 9), (10, 9), (9, 9 + 1 / 8)], area = 1 / 16\<rparr>]"
        "''BRA''"]
  by (simp add: multipolygon_area_def spec_threshold_def)

text \<open>
  C4 as stated fails: two parts of area 1/128 each give a MultiPolygon of total area
  1/64, which is not below 0.01; for \<open>USA\<close> the threshold is 0.01, no part exceeds
  it, and the result is the empty MultiPolygon.
\<close>

theorem remove_small_shapes_empty_counterexample:
  "polygon_parts (MultiPolygon
     [\<lparr>exterior = [(0, 0), (1 / 8, 0), (0, 1 / 8)], area = 1 / 128\<rparr>,
      \<lparr>exterior = [(1, 1), (1 + 1 / 8, 1), (1, 1 + 1 / 8)], area = 1 / 128\<rparr>]) \<noteq> []
   \<and> remove_small_shapes
     \<lparr>geometry = Some (MultiPolygon
        [\<lparr>exterior = [(0, 0), (1 / 8, 0), (0, 1 / 8)], area = 1 / 128\<rparr>,
         \<lparr>exterior = [(1, 1), (1 + 1 / 8, 1), (1, 1 + 1 / 8)], area = 1 / 128\<rparr>]),
      columns = [''GID_0'' \<mapsto> ''USA'']\<rparr>
   = Inr (Some (MultiPolygon []))
   \<and> polygon_parts (MultiPolygon []) = []"
  by (simp add: remove_small_shapes_def column_def multipolygon_area_def)

text \<open>
  C4, amended. On a row with a \<open>GID_0\<close> column whose geometry is a Polygon or a
  MultiPolygon, a geometry is returned, and it has at least one polygon part exactly
  when the input is a Polygon, or a MultiPolygon of total area below 0.01 that has a
  part, or a MultiPolygon of total area at least 0.01 one of whose parts has an area
  above the chosen threshold.
\<close>

theorem remove_small_shapes_nonempty_iff:
  assumes "geometry x = Some g"
    and "geom_type g = ''Polygon'' \<or> geom_type g = ''MultiPolygon''"
    and "columns x ''GID_0'' = Some gid"
  shows "\<exists>g'. remove_small_shapes x = Inr (Some g') \<and>
           (polygon_parts g' \<noteq> [] \<longleftrightarrow>
              geom_type g = ''Polygon'' \<or>
              (if multipolygon_area (polygon_parts g) < 0.01 then polygon_parts g \<noteq> []
               else \<exists>y \<in> set (polygon_parts g).
                      area y > spec_threshold gid (multipolygon_area (polygon_parts g))))"
proof (cases g)
  case (Polygon p)
  with assms show ?thesis by (simp add: remove_small_shapes_def)
next
  case (MultiPolygon ps)
  show ?thesis
  proof (cases "multipolygon_area ps < 0.01")
    case True
    with MultiPolygon assms show ?thesis by (simp add: remove_small_shapes_def)
  next
    case False
    then have "multipolygon_area ps \<ge> 0.01" by simp
    with MultiPolygon assms(1,3) have
      "remove_small_shapes x = Inr (Some (MultiPolygon
         [y \<leftarrow> ps. area y > spec_threshold gid (multipolygon_area ps)]))"
      by (simp add: remove_small_shapes_def column_def spec_threshold_def not_less [symmetric])
    with MultiPolygon False show ?thesis
      by (auto simp: filter_empty_conv)
  qed
qed (use assms in simp_all)

theorem remove_small_shapes_nonempty_iff_witness:
  "\<exists>g'. remove_small_shapes
       \<lparr>geometry = Some (MultiPolygon
          [\<lparr>exterior = [(0, 0), (1, 0), (0, 1)], area = 1 / 2\<rparr>,
           \<lparr>exterior = [(2, 2), (2 + 1 / 8, 2), (2, 2 + 1 / 8)], area = 1 / 128\<rparr>]),
        columns = [''GID_0'' \<mapsto> ''CAN'']\<rparr> = Inr (Some g')
     \<and> polygon_parts g' \<noteq> []"
  using remove_small_shapes_nonempty_iff
    [of "\<lparr>geometry = Some (MultiPolygon
          [\<lparr>exterior = [(0, 0), (1, 0), (0, 1)], area = 1 / 2\<rparr>,
           \<lparr>exterior = [(2, 2), (2 + 1 / 8, 2), (2, 2 + 1 / 8)], area = 1 / 128\<rparr>]),
        columns = [''GID_0'' \<mapsto> ''CAN'']\<rparr>"
        "MultiPolygon
          [\<lparr>exterior = [(0, 0), (1, 0), (0, 1)], area = 1 / 2\<rparr>,
           \<lparr>exterior = [(2, 2), (2 + 1 / 8, 2), (2, 2 + 1 / 8)], area = 1 / 128\<rparr>]"
        "''CAN''"]
  by (simp add: multipolygon_area_def spec_threshold_def)

text \<open>
  C9. A feature whose geometry type is neither \<open>Polygon\<close> nor \<open>MultiPolygon\<close> yields
  Python's \<open>None\<close>: no error is raised, and in every layer the function is applied
  over successfully, the entry at that feature's position is the null geometry.
\<close>

theorem remove_small_shapes_other_type:
  assumes "geometry x = Some g"
    and "geom_type g \<noteq> ''Polygon''"
    and "geom_type g \<noteq> ''MultiPolygon''"
  shows "remove_small_shapes x = Inr None
         \<and> apply_remove_small_shapes [x] = Inr [None]
         \<and> (\<forall>pre post gs. apply_remove_small_shapes (pre @ x # post) = Inr gs
               \<longrightarrow> gs ! length pre = None)"
proof -
  from assms have r: "remove_small_shapes x = Inr None"
    by (cases g) (simp_all add: remove_small_shapes_def)
  moreover from r have "apply_remove_small_shapes [x] = Inr [None]" by simp
  moreover have "gs ! length pre = None"
    if "apply_remove_small_shapes (pre @ x # post) = Inr gs" for pre post gs
    using apply_remove_small_shapes_nth [OF that] r by simp
  ultimately show ?thesis by blast
qed

theorem remove_small_shapes_other_type_witness:
  "remove_small_shapes \<lparr>geometry = Some LineString, columns = [''GID_0'' \<mapsto> ''KEN'']\<rparr> = Inr None
   \<and> apply_remove_small_shapes
       [\<lparr>geometry = Some (Polygon \<lparr>exterior = [(0, 0), (1, 0), (0, 1)], area = 1 / 2\<rparr>),
         columns = [''GID_0'' \<mapsto> ''KEN'']\<rparr>,
        \<lparr>geometry = Some LineString, columns = [''GID_0'' \<mapsto> ''KEN'']\<rparr>]
     = Inr [Some (Polygon \<lparr>exterior = [(0, 0), (1, 0), (0, 1)], area = 1 / 2\<rparr>), None]"
  using remove_small_shapes_other_type
    [of "\<lparr>geometry = Some LineString, columns = [''GID_0'' \<mapsto> ''KEN'']\<rparr>" LineString]
  by (simp add: remove_small_shapes_def)

section \<open>Properties of the LCA calculators\<close>

lemma for_items_skip:
  "k \<notin> fst ` set xs \<Longrightarrow>
   for_items xs (\<lambda>key v s. if key = k then f key v s else Inr s) s0 = Inr s0"
  by (induction xs arbitrary: s0) auto

lemma for_items_select:
  "distinct (map fst xs) \<Longrightarrow>
   for_items xs (\<lambda>key v s. if key = k then f key v s else Inr s) s0 =
     (case map_of xs k of None \<Rightarrow> Inr s0 | Some v \<Rightarrow> f k v s0)"
proof (induction xs arbitrary: s0)
  case Nil
  then show ?case by simp
next
  case (Cons a xs)
  obtain key v where a: "a = (key, v)" by (cases a)
  show ?case
  proof (cases "key = k")
    case True
    with Cons.prems a have "k \<notin> fst ` set xs" by auto
    then show ?thesis using a True
      by (simp add: for_items_skip split: sum.splits)
  next
    case False
    with Cons a show ?thesis by simp
  qed
qed

lemma weight_times_factor_Some:
  "item wk = Some w \<Longrightarrow> cf fk = Some f \<Longrightarrow> weight_times_factor item cf wk fk = Inr (w * f)"
  by (simp add: weight_times_factor_def ebind_def getitem_def)

lemma weight_times_factor_dom:
  "wk \<in> dom item \<Longrightarrow> fk \<in> dom cf \<Longrightarrow>
   weight_times_factor item cf wk fk = Inr (the (item wk) * the (cf fk))"
  by (auto simp: weight_times_factor_Some)

lemma ebind_Inr: "ebind (Inr v) f = f v"
  by (simp add: ebind_def)

lemma lca_manufacturing_totals:
  assumes "distinct (map fst carbon_factors)" and "distinct (map fst weights)"
    and "map_of carbon_factors ''mfg_emissions'' = Some cf"
    and "map_of weights ''manufacturing'' = Some item"
    and "set [''fiber_cable_per_km_kg'', ''pcb_kg'', ''aluminium_bru_kg'', ''copper_antenna_kg'',
              ''aluminium_antenna_kg'', ''pvc_antenna_kg'', ''iron_antenna_kg'',
              ''steel_antenna_kg'', ''aluminium_frame_kg'', ''concrete_kg'',
              ''aluminium_device_kg''] \<subseteq> dom item"
    and "set [''glass_kg_co2e'', ''pcb_kg_co2e'', ''aluminium_kg_co2e'', ''copper_kg_co2e'',
              ''pvc_kg_co2e'', ''iron_kg_co2e'', ''steel_kg_co2e'', ''concrete_kg_co2e'']
           \<subseteq> dom cf"
  shows "lca_manufacturing carbon_factors weights = Inr
     [''aluminium_ghg'' \<mapsto> Num ((the (item ''aluminium_bru_kg'') + the (item ''aluminium_antenna_kg'')
                              + the (item ''aluminium_frame_kg'') + the (item ''aluminium_device_kg''))
                             * the (cf ''aluminium_kg_co2e'')),
      ''optic_fiber_ghg'' \<mapsto> Num (the (item ''fiber_cable_per_km_kg'') * the (cf ''glass_kg_co2e'')),
      ''steel_iron_ghg'' \<mapsto> Num (the (item ''iron_antenna_kg'') * the (cf ''iron_kg_co2e'')
                              + the (item ''steel_antenna_kg'') * the (cf ''steel_kg_co2e'')),
      ''concrete_ghg'' \<mapsto> Num (the (item ''concrete_kg'') * the (cf ''concrete_kg_co2e'')),
      ''plastics_ghg'' \<mapsto> Num (the (item ''pcb_kg'') * the (cf ''pcb_kg_co2e'')
                            + the (item ''pvc_antenna_kg'') * the (cf ''pvc_kg_co2e'')),
      ''other_metals_ghg'' \<mapsto> Num (the (item ''copper_antenna_kg'') * the (cf ''copper_kg_co2e'')),
      ''lca_phase'' \<mapsto> Str ''manufacturing'']"
proof -
  have "lca_manufacturing carbon_factors weights = mfg_body cf ''manufacturing'' item Map.empty"
    using assms(1-4) by (simp add: lca_manufacturing_def for_items_select)
  show ?thesis
    unfolding \<open>lca_manufacturing carbon_factors weights = mfg_body cf ''manufacturing'' item Map.empty\<close>
    using assms(5,6)
    by (simp add: mfg_body_def weight_times_factor_dom ebind_Inr algebra_simps)
qed


lemma lca_eolt_totals:
  assumes "distinct (map fst carbon_factors)" and "distinct (map fst weights)"
    and "map_of carbon_factors ''eolt_emissions'' = Some cf"
    and "map_of weights ''manufacturing'' = Some item"
    and "set [''fiber_cable_per_km_kg'', ''pcb_kg'', ''aluminium_bru_kg'', ''copper_antenna_kg'',
              ''aluminium_antenna_kg'', ''pvc_antenna_kg'', ''iron_antenna_kg'',
              ''steel_antenna_kg'', ''aluminium_frame_kg'', ''concrete_kg'',
              ''aluminium_device_kg''] \<subseteq> dom item"
    and "set [''glass_kg_co2e'', ''pcb_kg_co2e'', ''metals_kg_co2e'', ''concrete_kg_co2e'']
           \<subseteq> dom cf"
  shows "lca_eolt carbon_factors weights = Inr
     [''aluminium_ghg'' \<mapsto> Num ((the (item ''aluminium_bru_kg'') + the (item ''aluminium_antenna_kg'')
                              + the (item ''aluminium_frame_kg'') + the (item ''aluminium_device_kg''))
                             * the (cf ''metals_kg_co2e'')),
      ''optic_fiber_ghg'' \<mapsto> Num (the (item ''fiber_cable_per_km_kg'') * the (cf ''glass_kg_co2e'')),
      ''steel_iron_ghg'' \<mapsto> Num ((the (item ''iron_antenna_kg'') + the (item ''steel_antenna_kg''))
                              * the (cf ''metals_kg_co2e'')),
      ''concrete_ghg'' \<mapsto> Num (the (item ''concrete_kg'') * the (cf ''concrete_kg_co2e'')),
      ''plastics_ghg'' \<mapsto> Num ((the (item ''pcb_kg'') + the (item ''pvc_antenna_kg''))
                            * the (cf ''pcb_kg_co2e'')),
      ''other_metals_ghg'' \<mapsto> Num (the (item ''copper_antenna_kg'') * the (cf ''metals_kg_co2e'')),
      ''lca_phase'' \<mapsto> Str ''eolt'']"
proof -
  have "lca_eolt carbon_factors weights = eolt_body cf ''manufacturing'' item Map.empty"
    using assms(1-4) by (simp add: lca_eolt_def for_items_select)
  then show ?thesis
    using assms(5,6)
    by (simp add: eolt_body_def weight_times_factor_dom ebind_Inr algebra_simps)
qed

lemma lca_trans_total:
  assumes "distinct (map fst carbon_factors)"
    and "map_of carbon_factors ''trans_emissions'' = Some cf"
    and "''olnu_router_kg_co2e'' \<in> dom cf"
  shows "lca_trans carbon_factors = Inr
     [''optic_fiber_ghg'' \<mapsto> Num (the (cf ''olnu_router_kg_co2e'')),
      ''lca_phase'' \<mapsto> Str ''trans'']"
  using assms by (auto simp: lca_trans_def for_items_select ebind_def getitem_def)

lemma ops_loop:
  assumes "\<forall>(key, operation) \<in> set operations.
             {''cpe_power_kwh'', ''base_station_pwr_kwh'', ''terminal_unit_pwr_kwh''}
               \<subseteq> dom operation"
  shows "for_items operations ops_body d = Inr
     (if operations = [] then d
      else d(''cpe_power'' \<mapsto> Num (the (snd (last operations) ''cpe_power_kwh'')),
             ''base_station_power_kwh'' \<mapsto> Num (the (snd (last operations) ''base_station_pwr_kwh'')),
             ''terminal_unit_pwr_kwh'' \<mapsto> Num (the (snd (last operations) ''terminal_unit_pwr_kwh'')),
             ''lca_phase'' \<mapsto> Str ''ops''))"
  using assms
proof (induction operations arbitrary: d)
  case Nil
  then show ?case by simp
next
  case (Cons a operations)
  obtain key operation where a: "a = (key, operation)" by (cases a)
  from Cons.prems a have k: "''cpe_power_kwh'' \<in> dom operation"
    "''base_station_pwr_kwh'' \<in> dom operation" "''terminal_unit_pwr_kwh'' \<in> dom operation"
    by auto
  from Cons.prems have rest: "\<forall>(key, operation) \<in> set operations.
             {''cpe_power_kwh'', ''base_station_pwr_kwh'', ''terminal_unit_pwr_kwh''}
               \<subseteq> dom operation" by simp
  have step: "ops_body key operation d = Inr
      (d(''cpe_power'' \<mapsto> Num (the (operation ''cpe_power_kwh'')),
         ''base_station_power_kwh'' \<mapsto> Num (the (operation ''base_station_pwr_kwh'')),
         ''terminal_unit_pwr_kwh'' \<mapsto> Num (the (operation ''terminal_unit_pwr_kwh'')),
         ''lca_phase'' \<mapsto> Str ''ops''))"
    using k by (auto simp: ops_body_def ebind_def getitem_def)
  show ?case
    unfolding a for_items.simps step sum.case Cons.IH [OF rest]
    by (auto intro!: ext)
qed

lemma lca_operations_values:
  assumes "operations \<noteq> []"
    and "\<forall>(key, operation) \<in> set operations.
             {''cpe_power_kwh'', ''base_station_pwr_kwh'', ''terminal_unit_pwr_kwh''}
               \<subseteq> dom operation"
  shows "lca_operations operations = Inr
     [''cpe_power'' \<mapsto> Num (the (snd (last operations) ''cpe_power_kwh'')),
      ''base_station_power_kwh'' \<mapsto> Num (the (snd (last operations) ''base_station_pwr_kwh'')),
      ''terminal_unit_pwr_kwh'' \<mapsto> Num (the (snd (last operations) ''terminal_unit_pwr_kwh'')),
      ''lca_phase'' \<mapsto> Str ''ops'']"
proof -
  have "lca_operations operations = for_items operations ops_body Map.empty"
    by (simp add: lca_operations_def)
  with ops_loop [OF assms(2), of Map.empty] assms(1) show ?thesis by simp
qed

lemma weighted_sum_zero_weights:
  assumes "weighted_sum weights carbon_factors s"
    and "\<And>k item wk w. (k, item) \<in> set weights \<Longrightarrow> item wk = Some w \<Longrightarrow> w = 0"
  shows "s = 0"
  using assms by (induction rule: weighted_sum.induct) auto

text \<open>
  C1 as stated fails for \<open>lca_trans\<close>: its \<open>'optic_fiber_ghg'\<close> is the factor
  \<open>olnu_router_kg_co2e\<close> itself, multiplied by no weight. With a weights table whose
  single weight is 0, every sum of products weight \<open>\<times>\<close> factor is 0, yet the total
  returned is 5.
\<close>

theorem lca_trans_counterexample:
  "lca_trans [(''mfg_emissions'', [''glass_kg_co2e'' \<mapsto> 2]),
              (''trans_emissions'', [''olnu_router_kg_co2e'' \<mapsto> 5])]
     = Inr [''optic_fiber_ghg'' \<mapsto> Num 5, ''lca_phase'' \<mapsto> Str ''trans'']
   \<and> \<not> weighted_sum [(''manufacturing'', [''fiber_cable_per_km_kg'' \<mapsto> 0])]
          [(''mfg_emissions'', [''glass_kg_co2e'' \<mapsto> 2]),
           (''trans_emissions'', [''olnu_router_kg_co2e'' \<mapsto> 5])] 5"
proof
  show "lca_trans [(''mfg_emissions'', [''glass_kg_co2e'' \<mapsto> 2]),
              (''trans_emissions'', [''olnu_router_kg_co2e'' \<mapsto> 5])]
     = Inr [''optic_fiber_ghg'' \<mapsto> Num 5, ''lca_phase'' \<mapsto> Str ''trans'']"
    by (simp add: lca_trans_def ebind_def getitem_def)
  show "\<not> weighted_sum [(''manufacturing'', [''fiber_cable_per_km_kg'' \<mapsto> 0])]
          [(''mfg_emissions'', [''glass_kg_co2e'' \<mapsto> 2]),
           (''trans_emissions'', [''olnu_router_kg_co2e'' \<mapsto> 5])] 5"
  proof
    assume "weighted_sum [(''manufacturing'', [''fiber_cable_per_km_kg'' \<mapsto> 0])]
          [(''mfg_emissions'', [''glass_kg_co2e'' \<mapsto> 2]),
           (''trans_emissions'', [''olnu_router_kg_co2e'' \<mapsto> 5])] 5"
    then have "(5::real) = 0"
      by (rule weighted_sum_zero_weights) (auto split: if_splits)
    then show False by simp
  qed
qed


text \<open>
  C1, amended. On well-formed tables holding the keys the code reads:
  \<open>lca_manufacturing\<close> and \<open>lca_eolt\<close> return, per material category, the sum of
  products weight \<open>\<times>\<close> factor of the phase's factor table (the aluminium total is the
  four aluminium weights times the aluminium factor, respectively the metals factor);
  \<open>lca_trans\<close> returns under \<open>'optic_fiber_ghg'\<close> the factor \<open>olnu_router_kg_co2e\<close>
  alone; \<open>lca_operations\<close> returns the three power values of the last entry of
  \<open>operations\<close>, with no factor applied.
\<close>

theorem lca_category_totals:
  assumes "distinct (map fst carbon_factors)" and "distinct (map fst weights)"
    and "map_of weights ''manufacturing'' = Some item"
    and "set [''fiber_cable_per_km_kg'', ''pcb_kg'', ''aluminium_bru_kg'', ''copper_antenna_kg'',
              ''aluminium_antenna_kg'', ''pvc_antenna_kg'', ''iron_antenna_kg'',
              ''steel_antenna_kg'', ''aluminium_frame_kg'', ''concrete_kg'',
              ''aluminium_device_kg''] \<subseteq> dom item"
    and "map_of carbon_factors ''mfg_emissions'' = Some mfg_f"
    and "set [''glass_kg_co2e'', ''pcb_kg_co2e'', ''aluminium_kg_co2e'', ''copper_kg_co2e'',
              ''pvc_kg_co2e'', ''iron_kg_co2e'', ''steel_kg_co2e'', ''concrete_kg_co2e'']
           \<subseteq> dom mfg_f"
    and "map_of carbon_factors ''eolt_emissions'' = Some eolt_f"
    and "set [''glass_kg_co2e'', ''pcb_kg_co2e'', ''metals_kg_co2e'', ''concrete_kg_co2e'']
           \<subseteq> dom eolt_f"
    and "map_of carbon_factors ''trans_emissions'' = Some trans_f"
    and "''olnu_router_kg_co2e'' \<in> dom trans_f"
    and "operations \<noteq> []"
    and "\<forall>(key, operation) \<in> set operations.
             {''cpe_power_kwh'', ''base_station_pwr_kwh'', ''terminal_unit_pwr_kwh''}
               \<subseteq> dom operation"
  shows "lca_manufacturing carbon_factors weights = Inr
     [''aluminium_ghg'' \<mapsto> Num ((the (item ''aluminium_bru_kg'') + the (item ''aluminium_antenna_kg'')
                              + the (item ''aluminium_frame_kg'') + the (item ''aluminium_device_kg''))
                             * the (mfg_f ''aluminium_kg_co2e'')),
      ''optic_fiber_ghg'' \<mapsto> Num (the (item ''fiber_cable_per_km_kg'') * the (mfg_f ''glass_kg_co2e'')),
      ''steel_iron_ghg'' \<mapsto> Num (the (item ''iron_antenna_kg'') * the (mfg_f ''iron_kg_co2e'')
                              + the (item ''steel_antenna_kg'') * the (mfg_f ''steel_kg_co2e'')),
      ''concrete_ghg'' \<mapsto> Num (the (item ''concrete_kg'') * the (mfg_f ''concrete_kg_co2e'')),
      ''plastics_ghg'' \<mapsto> Num (the (item ''pcb_kg'') * the (mfg_f ''pcb_kg_co2e'')
                            + the (item ''pvc_antenna_kg'') * the (mfg_f ''pvc_kg_co2e'')),
      ''other_metals_ghg'' \<mapsto> Num (the (item ''copper_antenna_kg'') * the (mfg_f ''copper_kg_co2e'')),
      ''lca_phase'' \<mapsto> Str ''manufacturing'']
    \<and> lca_eolt carbon_factors weights = Inr
     [''aluminium_ghg'' \<mapsto> Num ((the (item ''aluminium_bru_kg'') + the (item ''aluminium_antenna_kg'')
                              + the (item ''aluminium_frame_kg'') + the (item ''aluminium_device_kg''))
                             * the (eolt_f ''metals_kg_co2e'')),
      ''optic_fiber_ghg'' \<mapsto> Num (the (item ''fiber_cable_per_km_kg'') * the (eolt_f ''glass_kg_co2e'')),
      ''steel_iron_ghg'' \<mapsto> Num ((the (item ''iron_antenna_kg'') + the (item ''steel_antenna_kg''))
                              * the (eolt_f ''metals_kg_co2e'')),
      ''concrete_ghg'' \<mapsto> Num (the (item ''concrete_kg'') * the (eolt_f ''concrete_kg_co2e'')),
      ''plastics_ghg'' \<mapsto> Num ((the (item ''pcb_kg'') + the (item ''pvc_antenna_kg''))
                            * the (eolt_f ''pcb_kg_co2e'')),
      ''other_metals_ghg'' \<mapsto> Num (the (item ''copper_antenna_kg'') * the (eolt_f ''metals_kg_co2e'')),
      ''lca_phase'' \<mapsto> Str ''eolt'']
    \<and> lca_trans carbon_factors = Inr
     [''optic_fiber_ghg'' \<mapsto> Num (the (trans_f ''olnu_router_kg_co2e'')),
      ''lca_phase'' \<mapsto> Str ''trans'']
    \<and> lca_operations operations = Inr
     [''cpe_power'' \<mapsto> Num (the (snd (last operations) ''cpe_power_kwh'')),
      ''base_station_power_kwh'' \<mapsto> Num (the (snd (last operations) ''base_station_pwr_kwh'')),
      ''terminal_unit_pwr_kwh'' \<mapsto> Num (the (snd (last operations) ''terminal_unit_pwr_kwh'')),
      ''lca_phase'' \<mapsto> Str ''ops'']"
proof (intro conjI)
  show "lca_manufacturing carbon_factors weights = Inr
     [''aluminium_ghg'' \<mapsto> Num ((the (item ''aluminium_bru_kg'') + the (item ''aluminium_antenna_kg'')
                              + the (item ''aluminium_frame_kg'') + the (item ''aluminium_device_kg''))
                             * the (mfg_f ''aluminium_kg_co2e'')),
      ''optic_fiber_ghg'' \<mapsto> Num (the (item ''fiber_cable_per_km_kg'') * the (mfg_f ''glass_kg_co2e'')),
      ''steel_iron_ghg'' \<mapsto> Num (the (item ''iron_antenna_kg'') * the (mfg_f ''iron_kg_co2e'')
                              + the (item ''steel_antenna_kg'') * the (mfg_f ''steel_kg_co2e'')),
      ''concrete_ghg'' \<mapsto> Num (the (item ''concrete_kg'') * the (mfg_f ''concrete_kg_co2e'')),
      ''plastics_ghg'' \<mapsto> Num (the (item ''pcb_kg'') * the (mfg_f ''pcb_kg_co2e'')
                            + the (item ''pvc_antenna_kg'') * the (mfg_f ''pvc_kg_co2e'')),
      ''other_metals_ghg'' \<mapsto> Num (the (item ''copper_antenna_kg'') * the (mfg_f ''copper_kg_co2e'')),
      ''lca_phase'' \<mapsto> Str ''manufacturing'']"
    by (rule lca_manufacturing_totals [OF assms(1,2,5,3,4,6)])
  show "lca_eolt carbon_factors weights = Inr
     [''aluminium_ghg'' \<mapsto> Num ((the (item ''aluminium_bru_kg'') + the (item ''aluminium_antenna_kg'')
                              + the (item ''aluminium_frame_kg'') + the (item ''aluminium_device_kg''))
                             * the (eolt_f ''metals_kg_co2e'')),
      ''optic_fiber_ghg'' \<mapsto> Num (the (item ''fiber_cable_per_km_kg'') * the (eolt_f ''glass_kg_co2e'')),
      ''steel_iron_ghg'' \<mapsto> Num ((the (item ''iron_antenna_kg'') + the (item ''steel_antenna_kg''))
                              * the (eolt_f ''metals_kg_co2e'')),
      ''concrete_ghg'' \<mapsto> Num (the (item ''concrete_kg'') * the (eolt_f ''concrete_kg_co2e'')),
      ''plastics_ghg'' \<mapsto> Num ((the (item ''pcb_kg'') + the (item ''pvc_antenna_kg''))
                            * the (eolt_f ''pcb_kg_co2e'')),
      ''other_metals_ghg'' \<mapsto> Num (the (item ''copper_antenna_kg'') * the (eolt_f ''metals_kg_co2e'')),
      ''lca_phase'' \<mapsto> Str ''eolt'']"
    by (rule lca_eolt_totals [OF assms(1,2,7,3,4,8)])
  show "lca_trans carbon_factors = Inr
     [''optic_fiber_ghg'' \<mapsto> Num (the (trans_f ''olnu_router_kg_co2e'')),
      ''lca_phase'' \<mapsto> Str ''trans'']"
    by (rule lca_trans_total [OF assms(1,9,10)])
  show "lca_operations operations = Inr
     [''cpe_power'' \<mapsto> Num (the (snd (last operations) ''cpe_power_kwh'')),
      ''base_station_power_kwh'' \<mapsto> Num (the (snd (last operations) ''base_station_pwr_kwh'')),
      ''terminal_unit_pwr_kwh'' \<mapsto> Num (the (snd (last operations) ''terminal_unit_pwr_kwh'')),
      ''lca_phase'' \<mapsto> Str ''ops'']"
    by (rule lca_operations_values [OF assms(11,12)])
qed

theorem lca_category_totals_witness:
  "lca_manufacturing example_carbon_factors example_weights = Inr
     [''aluminium_ghg'' \<mapsto> Num 100, ''optic_fiber_ghg'' \<mapsto> Num 20,
      ''steel_iron_ghg'' \<mapsto> Num 98, ''concrete_ghg'' \<mapsto> Num (9 / 2),
      ''plastics_ghg'' \<mapsto> Num 33, ''other_metals_ghg'' \<mapsto> Num 15,
      ''lca_phase'' \<mapsto> Str ''manufacturing'']
   \<and> lca_eolt example_carbon_factors example_weights = Inr
     [''aluminium_ghg'' \<mapsto> Num 75, ''optic_fiber_ghg'' \<mapsto> Num 10,
      ''steel_iron_ghg'' \<mapsto> Num 39, ''concrete_ghg'' \<mapsto> Num 36,
      ''plastics_ghg'' \<mapsto> Num 12, ''other_metals_ghg'' \<mapsto> Num 9,
      ''lca_phase'' \<mapsto> Str ''eolt'']
   \<and> lca_trans example_carbon_factors = Inr
     [''optic_fiber_ghg'' \<mapsto> Num 5, ''lca_phase'' \<mapsto> Str ''trans'']
   \<and> lca_operations example_operations = Inr
     [''cpe_power'' \<mapsto> Num 1, ''base_station_power_kwh'' \<mapsto> Num 2,
      ''terminal_unit_pwr_kwh'' \<mapsto> Num 3, ''lca_phase'' \<mapsto> Str ''ops'']"
  using lca_category_totals
    [of example_carbon_factors example_weights "snd (hd example_weights)" example_mfg_factors
        example_eolt_factors example_trans_factors example_operations]
  by (simp add: example_carbon_factors_def example_weights_def example_mfg_factors_def
      example_eolt_factors_def example_trans_factors_def example_operations_def)

section \<open>Properties of \<open>process_population_tif\<close>\<close>









lemma to_csv_rows_dropna:
  "to_csv_rows (dropna_population out) = Inr rows \<Longrightarrow>
   map to_csv_row (dropna_population out) = map Inr rows"
  unfolding dropna_population_def
proof (induction out arbitrary: rows)
  case Nil
  then show ?case by simp
next
  case (Cons r rs)
  then show ?case by (auto split: sum.splits if_splits)
qed

lemma to_csv_rows_total:
  "\<exists>rows. to_csv_rows (dropna_population out) = Inr rows"
  unfolding dropna_population_def
  by (induction out) (auto simp: to_csv_row_def split: sum.splits option.splits)


lemma population_rows_length:
  "population_rows zone centroid raster boundaries out = Inr out' \<Longrightarrow>
   length out' = length out + length boundaries"
  by (induction boundaries arbitrary: out) (auto split: sum.splits)




text \<open>
  C6. The CSV written holds one row per record whose population is present, in order,
  and none for a record whose population is missing: the rows are the conversions of
  the records that \<open>dropna\<close> kept, and there is one record per boundary.
\<close>

theorem process_population_tif_drops_null:
  assumes "process_population_tif zone centroid raster boundaries = Inr (csv, out)"
  shows "map to_csv_row [r \<leftarrow> out. population r \<noteq> None] = map Inr csv
         \<and> length out = length boundaries
         \<and> length csv + length [r \<leftarrow> out. population r = None] = length out"
proof -
  from assms have out: "population_rows zone centroid raster boundaries [] = Inr out"
    and csv: "to_csv_rows (dropna_population out) = Inr csv"
    by (auto simp: process_population_tif_def split: sum.splits if_splits)
  have m: "map to_csv_row [r \<leftarrow> out. population r \<noteq> None] = map Inr csv"
    using to_csv_rows_dropna [OF csv] by (simp add: dropna_population_def)
  then have "length [r \<leftarrow> out. population r \<noteq> None] = length csv"
    by (metis length_map)
  moreover have "length [r \<leftarrow> out. population r \<noteq> None] + length [r \<leftarrow> out. population r = None]
      = length out"
    using sum_length_filter_compl [of "\<lambda>r. population r \<noteq> None" out] by simp
  ultimately show ?thesis
    using m population_rows_length [OF out] by simp
qed

theorem process_population_tif_drops_null_witness:
  "process_population_tif (\<lambda>g. case g of Polygon p \<Rightarrow> [0, 1] | _ \<Rightarrow> [3, 9]) (\<lambda>g. (1, 2))
     [10, 10, 4, 255]
     [\<lparr>geometry = Some (Polygon \<lparr>exterior = [(0, 0), (1, 0), (0, 1)], area = 1 / 2\<rparr>),
       columns = [''GID_0'' \<mapsto> ''KEN'', ''NAME_1'' \<mapsto> ''Nairobi'', ''GID_1'' \<mapsto> ''KEN.30_1'']\<rparr>,
      \<lparr>geometry = Some (MultiPolygon [\<lparr>exterior = [(5, 5), (6, 5), (5, 6)], area = 1 / 2\<rparr>]),
       columns = [''GID_0'' \<mapsto> ''KEN'', ''NAME_1'' \<mapsto> ''Lamu'', ''GID_1'' \<mapsto> ''KEN.21_1'']\<rparr>]
   = Inr
     ([\<lparr>csv_iso3 = ''KEN'', csv_region = ''Nairobi'', csv_gid_1 = ''KEN.30_1'',
        csv_population = 20, csv_latitude = 2, csv_longitude = 1,
        csv_geometry = Polygon \<lparr>exterior = [(0, 0), (1, 0), (0, 1)], area = 1 / 2\<rparr>,
        csv_area = 12309 / 2\<rparr>],
      [\<lparr>iso3 = ''KEN'', region = ''Nairobi'', gid_1 = ''KEN.30_1'', population = Some 20,
        latitude = 2, longitude = 1,
        rec_geometry = Polygon \<lparr>exterior = [(0, 0), (1, 0), (0, 1)], area = 1 / 2\<rparr>,
        rec_area = 12309 / 2\<rparr>,
       \<lparr>iso3 = ''KEN'', region = ''Lamu'', gid_1 = ''KEN.21_1'', population = None,
        latitude = 2, longitude = 1,
        rec_geometry = MultiPolygon [\<lparr>exterior = [(5, 5), (6, 5), (5, 6)], area = 1 / 2\<rparr>],
        rec_area = 12309 / 2\<rparr>])
   \<and> length [\<lparr>csv_iso3 = ''KEN'', csv_region = ''Nairobi'', csv_gid_1 = ''KEN.30_1'',
        csv_population = 20, csv_latitude = 2, csv_longitude = 1,
        csv_geometry = Polygon \<lparr>exterior = [(0, 0), (1, 0), (0, 1)], area = 1 / 2\<rparr>,
        csv_area = 12309 / 2\<rparr>] + 1 = (2::nat)"
proof -
  have e: "process_population_tif (\<lambda>g. case g of Polygon p \<Rightarrow> [0, 1] | _ \<Rightarrow> [3, 9]) (\<lambda>g. (1, 2))
     [10, 10, 4, 255]
     [\<lparr>geometry = Some (Polygon \<lparr>exterior = [(0, 0), (1, 0), (0, 1)], area = 1 / 2\<rparr>),
       columns = [''GID_0'' \<mapsto> ''KEN'', ''NAME_1'' \<mapsto> ''Nairobi'', ''GID_1'' \<mapsto> ''KEN.30_1'']\<rparr>,
      \<lparr>geometry = Some (MultiPolygon [\<lparr>exterior = [(5, 5), (6, 5), (5, 6)], area = 1 / 2\<rparr>]),
       columns = [''GID_0'' \<mapsto> ''KEN'', ''NAME_1'' \<mapsto> ''Lamu'', ''GID_1'' \<mapsto> ''KEN.21_1'']\<rparr>]
   = Inr
     ([\<lparr>csv_iso3 = ''KEN'', csv_region = ''Nairobi'', csv_gid_1 = ''KEN.30_1'',
        csv_population = 20, csv_latitude = 2, csv_longitude = 1,
        csv_geometry = Polygon \<lparr>exterior = [(0, 0), (1, 0), (0, 1)], area = 1 / 2\<rparr>,
        csv_area = 12309 / 2\<rparr>],
      [\<lparr>iso3 = ''KEN'', region = ''Nairobi'', gid_1 = ''KEN.30_1'', population = Some 20,
        latitude = 2, longitude = 1,
        rec_geometry = Polygon \<lparr>exterior = [(0, 0), (1, 0), (0, 1)], area = 1 / 2\<rparr>,
        rec_area = 12309 / 2\<rparr>,
       \<lparr>iso3 = ''KEN'', region = ''Lamu'', gid_1 = ''KEN.21_1'', population = None,
        latitude = 2, longitude = 1,
        rec_geometry = MultiPolygon [\<lparr>exterior = [(5, 5), (6, 5), (5, 6)], area = 1 / 2\<rparr>],
        rec_area = 12309 / 2\<rparr>])"
    by (simp add: process_population_tif_def population_row_def build_record_def ebind_def
        column_def zonal_stats_sum_def zero_nonpositive_def dropna_population_def
        to_csv_row_def astype_int_def round4_def multipolygon_area_def)
  from process_population_tif_drops_null [OF e] e show ?thesis by simp
qed




section \<open>Properties of \<open>get_countries\<close>\<close>

lemma mset_remove_nth:
  "i < length xs \<Longrightarrow> add_mset (xs ! i) (mset (take i xs @ drop (Suc i) xs)) = mset xs"
proof -
  assume "i < length xs"
  then have "xs = take i xs @ xs ! i # drop (Suc i) xs" by (rule id_take_nth_drop)
  then have "mset xs = mset (take i xs @ xs ! i # drop (Suc i) xs)" by simp
  then show ?thesis by simp
qed

lemma mset_sample_frac_1: "mset (sample_frac_1 rng xs) = mset xs"
proof (induction rng xs rule: sample_frac_1.induct)
  case (1 rng xs)
  show ?case
  proof (cases "xs = []")
    case True
    then show ?thesis by (simp add: sample_frac_1.simps)
  next
    case False
    then have i: "rng 0 mod length xs < length xs" by simp
    from False have "mset (sample_frac_1 rng xs) =
        add_mset (xs ! (rng 0 mod length xs))
          (mset (sample_frac_1 (\<lambda>n. rng (Suc n))
             (take (rng 0 mod length xs) xs @ drop (Suc (rng 0 mod length xs)) xs)))"
      by (subst sample_frac_1.simps) simp
    also have "\<dots> = add_mset (xs ! (rng 0 mod length xs))
          (mset (take (rng 0 mod length xs) xs @ drop (Suc (rng 0 mod length xs)) xs))"
      using "1.IH" [OF False] by simp
    also have "\<dots> = mset xs" by (rule mset_remove_nth [OF i])
    finally show ?thesis .
  qed
qed

lemma sample_frac_1_reaches:
  "mset ys = mset xs \<Longrightarrow> \<exists>rng. sample_frac_1 rng xs = ys"
proof (induction ys arbitrary: xs)
  case Nil
  then show ?case by (simp add: sample_frac_1.simps)
next
  case (Cons y ys)
  from Cons.prems have "y \<in> set xs" by (metis list.set_intros(1) set_mset_mset)
  then obtain i where i: "i < length xs" "xs ! i = y" by (auto simp: in_set_conv_nth)
  have "add_mset y (mset (take i xs @ drop (Suc i) xs)) = add_mset y (mset ys)"
    using mset_remove_nth [OF i(1)] i(2) Cons.prems by simp
  then have "mset ys = mset (take i xs @ drop (Suc i) xs)" by simp
  from Cons.IH [OF this] obtain rng' where
    r: "sample_frac_1 rng' (take i xs @ drop (Suc i) xs) = ys" by blast
  let ?rng = "\<lambda>n. case n of 0 \<Rightarrow> i | Suc m \<Rightarrow> rng' m"
  from i have ne: "xs \<noteq> []" by auto
  have "sample_frac_1 ?rng xs = y # ys"
    using ne i r by (subst sample_frac_1.simps) simp
  then show ?case by blast
qed

text \<open>
  C10. Whatever the random source, \<open>get_countries\<close> returns exactly the rows whose
  \<open>Exclude\<close> flag is 0, each as often as it occurs in the CSV; and every ordering of
  those rows is returned for some random source, so the order is not determined by
  the input.
\<close>

theorem get_countries_shuffled:
  "mset (get_countries rng csv_country) = mset [c \<leftarrow> csv_country. Exclude c = 0]
   \<and> (\<forall>ys. mset ys = mset [c \<leftarrow> csv_country. Exclude c = 0]
          \<longrightarrow> (\<exists>rng'. get_countries rng' csv_country = ys))"
  by (simp add: get_countries_def mset_sample_frac_1 sample_frac_1_reaches)

theorem get_countries_shuffled_witness:
  "get_countries (\<lambda>n. 0)
     [\<lparr>row_label = 0, meta_iso3 = ''KEN'', Exclude = 0\<rparr>,
      \<lparr>row_label = 1, meta_iso3 = ''ATA'', Exclude = 1\<rparr>,
      \<lparr>row_label = 2, meta_iso3 = ''RWA'', Exclude = 0\<rparr>]
   = [\<lparr>row_label = 0, meta_iso3 = ''KEN'', Exclude = 0\<rparr>,
      \<lparr>row_label = 2, meta_iso3 = ''RWA'', Exclude = 0\<rparr>]
   \<and> (\<exists>rng'. get_countries rng'
     [\<lparr>row_label = 0, meta_iso3 = ''KEN'', Exclude = 0\<rparr>,
      \<lparr>row_label = 1, meta_iso3 = ''ATA'', Exclude = 1\<rparr>,
      \<lparr>row_label = 2, meta_iso3 = ''RWA'', Exclude = 0\<rparr>]
   = [\<lparr>row_label = 2, meta_iso3 = ''RWA'', Exclude = 0\<rparr>,
      \<lparr>row_label = 0, meta_iso3 = ''KEN'', Exclude = 0\<rparr>])"
proof
  show "get_countries (\<lambda>n. 0)
     [\<lparr>row_label = 0, meta_iso3 = ''KEN'', Exclude = 0\<rparr>,
      \<lparr>row_label = 1, meta_iso3 = ''ATA'', Exclude = 1\<rparr>,
      \<lparr>row_label = 2, meta_iso3 = ''RWA'', Exclude = 0\<rparr>]
   = [\<lparr>row_label = 0, meta_iso3 = ''KEN'', Exclude = 0\<rparr>,
      \<lparr>row_label = 2, meta_iso3 = ''RWA'', Exclude = 0\<rparr>]"
    by (simp add: get_countries_def sample_frac_1.simps)
  show "\<exists>rng'. get_countries rng'
     [\<lparr>row_label = 0, meta_iso3 = ''KEN'', Exclude = 0\<rparr>,
      \<lparr>row_label = 1, meta_iso3 = ''ATA'', Exclude = 1\<rparr>,
      \<lparr>row_label = 2, meta_iso3 = ''RWA'', Exclude = 0\<rparr>]
   = [\<lparr>row_label = 2, meta_iso3 = ''RWA'', Exclude = 0\<rparr>,
      \<lparr>row_label = 0, meta_iso3 = ''KEN'', Exclude = 0\<rparr>]"
    using get_countries_shuffled
      [of "\<lambda>n. 0" "[\<lparr>row_label = 0, meta_iso3 = ''KEN'', Exclude = 0\<rparr>,
      \<lparr>row_label = 1, meta_iso3 = ''ATA'', Exclude = 1\<rparr>,
      \<lparr>row_label = 2, meta_iso3 = ''RWA'', Exclude = 0\<rparr>]"]
    by simp
qed

section \<open>Properties of \<open>process_regions\<close>\<close>

lemma str_of_nat_nonempty: "str_of_nat n \<noteq> []"
  by (subst str_of_nat.simps) simp

lemma digit_inj:
  assumes "i < 10" and "j < 10" and "''0123456789'' ! i = ''0123456789'' ! j"
  shows "i = j"
proof -
  have "distinct ''0123456789''" by simp
  moreover have "i < length ''0123456789''" "j < length ''0123456789''" using assms by simp_all
  ultimately show ?thesis using assms(3) by (simp only: nth_eq_iff_index_eq)
qed

lemma str_of_nat_inj: "str_of_nat n = str_of_nat m \<Longrightarrow> n = m"
proof (induction n arbitrary: m rule: str_of_nat.induct)
  case (1 n)
  show ?case
  proof (cases "n < 10")
    case n: True
    show ?thesis
    proof (cases "m < 10")
      case True
      with n "1.prems" have "''0123456789'' ! n = ''0123456789'' ! m"
        by (simp add: str_of_nat.simps [of n] str_of_nat.simps [of m])
      with n True show ?thesis by (rule digit_inj)
    next
      case False
      with n "1.prems" have "[''0123456789'' ! n] = str_of_nat (m div 10) @ [''0123456789'' ! (m mod 10)]"
        by (simp add: str_of_nat.simps [of n] str_of_nat.simps [of m])
      then have "str_of_nat (m div 10) = []" by simp
      then show ?thesis using str_of_nat_nonempty by simp
    qed
  next
    case n: False
    show ?thesis
    proof (cases "m < 10")
      case True
      with n "1.prems" have "str_of_nat (n div 10) @ [''0123456789'' ! (n mod 10)] = [''0123456789'' ! m]"
        by (simp add: str_of_nat.simps [of n] str_of_nat.simps [of m])
      then have "str_of_nat (n div 10) = []" by simp
      then show ?thesis using str_of_nat_nonempty by simp
    next
      case False
      with n "1.prems" have e: "str_of_nat (n div 10) = str_of_nat (m div 10)"
          "''0123456789'' ! (n mod 10) = ''0123456789'' ! (m mod 10)"
        by (simp_all add: str_of_nat.simps [of n] str_of_nat.simps [of m])
      from "1.IH" [OF n e(1)] have "n div 10 = m div 10" .
      moreover have "n mod 10 = m mod 10" by (rule digit_inj [OF _ _ e(2)]) simp_all
      ultimately show ?thesis by (metis div_mult_mod_eq)
    qed
  qed
qed

lemma path_processed_inj:
  "path_processed country_iso3 l = path_processed country_iso3 l' \<Longrightarrow> l = l'"
  by (simp add: path_processed_def path_join_def str_of_nat_inj)

lemma path_processed_not_folder: "path_processed country_iso3 l \<noteq> regions_folder country_iso3"
  by (simp add: path_processed_def path_join_def)

lemma process_level_skip:
  "path_processed country_iso3 l \<in> paths w \<Longrightarrow>
   process_level read_file simplify to_file_raises country_iso3 l w = Inr w"
  by (simp add: process_level_def)

lemma process_level_run:
  assumes "path_processed country_iso3 l \<notin> paths w"
    and "regions_folder country_iso3 \<in> paths w \<or> country_folder country_iso3 \<in> paths w"
    and "prepare_regions read_file simplify country_iso3 l = Inr regions"
  shows "\<exists>w1. process_level read_file simplify to_file_raises country_iso3 l w = Inr w1
           \<and> paths w1 = insert (regions_folder country_iso3) (paths w)
                \<union> (if to_file_raises (path_processed country_iso3 l) then {}
                    else {path_processed country_iso3 l})
           \<and> stdout w1 = stdout w @ level_lines to_file_raises country_iso3 l
           \<and> to_file_calls w1 = to_file_calls w @ [path_processed country_iso3 l]"
  using assms
  by (auto simp: process_level_def Let_def ebind_def mkdir_def try_to_file_def level_lines_def)

lemma process_levels_writes:
  assumes "distinct ls"
    and "regions_folder country_iso3 \<in> paths w \<or> country_folder country_iso3 \<in> paths w"
    and "\<forall>l \<in> set ls. path_processed country_iso3 l \<notin> paths w \<longrightarrow>
           (\<exists>regions. prepare_regions read_file simplify country_iso3 l = Inr regions)"
  shows "\<exists>w'. process_levels read_file simplify to_file_raises country_iso3 ls w = Inr w'
           \<and> to_file_calls w' = to_file_calls w @
                map (path_processed country_iso3)
                  [l \<leftarrow> ls. path_processed country_iso3 l \<notin> paths w]
           \<and> stdout w' = stdout w @
                concat (map (level_lines to_file_raises country_iso3)
                  [l \<leftarrow> ls. path_processed country_iso3 l \<notin> paths w])"
  using assms
proof (induction ls arbitrary: w)
  case Nil
  then show ?case by simp
next
  case (Cons l ls)
  show ?case
  proof (cases "path_processed country_iso3 l \<in> paths w")
    case True
    from Cons.prems have "distinct ls"
      and "\<forall>l \<in> set ls. path_processed country_iso3 l \<notin> paths w \<longrightarrow>
           (\<exists>regions. prepare_regions read_file simplify country_iso3 l = Inr regions)"
      by simp_all
    from Cons.IH [OF this(1) Cons.prems(2) this(2)] True show ?thesis
      by (simp add: process_level_skip)
  next
    case False
    with Cons.prems(3) obtain regions where
      "prepare_regions read_file simplify country_iso3 l = Inr regions" by auto
    from process_level_run [OF False Cons.prems(2) this, of to_file_raises]
    obtain w1 where w1:
      "process_level read_file simplify to_file_raises country_iso3 l w = Inr w1"
      "paths w1 = insert (regions_folder country_iso3) (paths w)
                \<union> (if to_file_raises (path_processed country_iso3 l) then {}
                    else {path_processed country_iso3 l})"
      "stdout w1 = stdout w @ level_lines to_file_raises country_iso3 l"
      "to_file_calls w1 = to_file_calls w @ [path_processed country_iso3 l]"
      by blast
    have same: "path_processed country_iso3 l' \<in> paths w1
                  \<longleftrightarrow> path_processed country_iso3 l' \<in> paths w" if "l' \<in> set ls" for l'
    proof -
      from that Cons.prems(1) have "l' \<noteq> l" by auto
      then have "path_processed country_iso3 l' \<noteq> path_processed country_iso3 l"
        using path_processed_inj by blast
      then show ?thesis using w1(2) path_processed_not_folder [of country_iso3 l']
        by (auto split: if_splits)
    qed
    then have filt: "[l' \<leftarrow> ls. path_processed country_iso3 l' \<notin> paths w1]
                   = [l' \<leftarrow> ls. path_processed country_iso3 l' \<notin> paths w]"
      by (intro filter_cong) auto
    have d: "distinct ls" using Cons.prems(1) by simp
    have f: "regions_folder country_iso3 \<in> paths w1 \<or> country_folder country_iso3 \<in> paths w1"
      using w1(2) by simp
    have p: "\<forall>l \<in> set ls. path_processed country_iso3 l \<notin> paths w1 \<longrightarrow>
           (\<exists>regions. prepare_regions read_file simplify country_iso3 l = Inr regions)"
      using Cons.prems(3) same by auto
    from Cons.IH [OF d f p] obtain w' where
      "process_levels read_file simplify to_file_raises country_iso3 ls w1 = Inr w'"
      "to_file_calls w' = to_file_calls w1 @
                map (path_processed country_iso3)
                  [l \<leftarrow> ls. path_processed country_iso3 l \<notin> paths w1]"
      "stdout w' = stdout w1 @
                concat (map (level_lines to_file_raises country_iso3)
                  [l \<leftarrow> ls. path_processed country_iso3 l \<notin> paths w1])"
      by blast
    with w1 False filt show ?thesis by simp
  qed
qed

text \<open>
  C8. When nothing outside the \<open>try\<close> raises (the country folder or the regions
  folder exists, and every level still to be processed can be read and prepared),
  \<open>process_regions\<close> returns normally whichever writes raise: \<open>to_file\<close> is called
  exactly once for every level whose output did not exist, in order, also after a
  write that raised, and each write that raised leaves one line \<open>Unable to write ...\<close>
  on the console.
\<close>

theorem process_regions_write_failures:
  assumes "regions_folder country_iso3 \<in> paths w \<or> country_folder country_iso3 \<in> paths w"
    and "\<forall>l \<in> set (regional_levels gid_level). path_processed country_iso3 l \<notin> paths w \<longrightarrow>
           (\<exists>regions. prepare_regions read_file simplify country_iso3 l = Inr regions)"
  shows "\<exists>w'. process_regions read_file simplify to_file_raises country_iso3 gid_level w = Inr w'
           \<and> to_file_calls w' = to_file_calls w @
                map (path_processed country_iso3)
                  [l \<leftarrow> regional_levels gid_level. path_processed country_iso3 l \<notin> paths w]
           \<and> stdout w' = stdout w @
                concat (map (level_lines to_file_raises country_iso3)
                  [l \<leftarrow> regional_levels gid_level. path_processed country_iso3 l \<notin> paths w])"
proof -
  have "distinct (regional_levels gid_level)" by (simp add: regional_levels_def)
  from process_levels_writes [OF this assms] show ?thesis
    by (simp add: process_regions_def)
qed

theorem process_regions_write_failures_witness:
  "\<exists>w'. process_regions
          (\<lambda>p. Inr [\<lparr>geometry = Some (Polygon \<lparr>exterior = [(0, 0), (1, 0), (0, 1)], area = 1 / 2\<rparr>),
                      columns = [''GID_0'' \<mapsto> ''KEN'']\<rparr>])
          (\<lambda>t g. g)
          (\<lambda>p. p = ''results/processed/KEN/regions/regions_1_KEN.shp'')
          ''KEN'' 2
          \<lparr>paths = {''results/processed/KEN''}, stdout = [], to_file_calls = []\<rparr> = Inr w'
      \<and> to_file_calls w' =
          [''results/processed/KEN/regions/regions_1_KEN.shp'',
           ''results/processed/KEN/regions/regions_2_KEN.shp'']
      \<and> stdout w' =
          [''Processing GID_1 region shapes for KEN'',
           ''Unable to write gadm36_1.shp'',
           ''Processing GID_2 region shapes for KEN'']"
proof -
  have levels: "regional_levels 2 = [1, 2]"
    by (simp add: regional_levels_def upt_rec)
  have s: "str_of_nat (Suc 0) = ''1''" "str_of_nat 2 = ''2''"
    by (simp_all add: str_of_nat.simps)
  show ?thesis
    using process_regions_write_failures
      [of "''KEN''" "\<lparr>paths = {''results/processed/KEN''}, stdout = [], to_file_calls = []\<rparr>" 2
          "\<lambda>p. Inr [\<lparr>geometry = Some (Polygon \<lparr>exterior = [(0, 0), (1, 0), (0, 1)], area = 1 / 2\<rparr>),
                      columns = [''GID_0'' \<mapsto> ''KEN'']\<rparr>]"
          "\<lambda>t g. g"
          "\<lambda>p. p = ''results/processed/KEN/regions/regions_1_KEN.shp''"]
    by (simp add: levels s path_processed_def regions_folder_def country_folder_def path_join_def
        level_lines_def raw_filename_def prepare_regions_def select_country_def ebind_def
        remove_small_shapes_def)
qed

end
